theory Spec2Isabelle
  imports Main "HOL-Library.Sublist"
begin

section \<open>Python values used by the adapter\<close>

text \<open>
  The adapter \<^verbatim>\<open>src/neotest_python/djangotest.py\<close> is glue between neotest and
  Django's test runner. Its own logic is string manipulation on case identifiers and
  three overridden result callbacks. Python strings are modelled as \<^typ>\<open>string\<close>,
  Python's unbounded integers as \<^typ>\<open>int\<close>, exceptions as values of a sum type.
\<close>

datatype py_error = ValueError | IndexError | KeyError | StopIteration

subsection \<open>String methods\<close>

text \<open>
  \<^verbatim>\<open>sub in s\<close> for strings: some suffix of \<open>s\<close> starts with \<open>sub\<close>.
\<close>

fun str_in :: "string \<Rightarrow> string \<Rightarrow> bool" where
  "str_in sub [] = (sub = [])"
| "str_in sub (c # cs) = (prefix sub (c # cs) \<or> str_in sub cs)"

text \<open>
  \<^verbatim>\<open>s.split(sep)\<close>: the string is scanned from the left; at every position where
  \<open>sep\<close> starts, the piece collected so far is emitted and the scan resumes behind the
  separator, so occurrences are the leftmost non-overlapping ones. The result is never
  empty. (Python rejects an empty separator; the adapter and \<^verbatim>\<open>posixpath\<close> only
  split on \<^verbatim>\<open>"::"\<close> and \<^verbatim>\<open>"/"\<close>.)
\<close>

function split_from :: "string \<Rightarrow> string \<Rightarrow> string \<Rightarrow> string list" where
  "split_from sep cur [] = [cur]"
| "split_from sep cur (c # cs) =
     (if sep \<noteq> [] \<and> prefix sep (c # cs)
      then cur # split_from sep [] (drop (length sep) (c # cs))
      else split_from sep (cur @ [c]) cs)"
  by pat_completeness auto
termination
  by (relation "measure (\<lambda>(sep, cur, s). length s)") (auto simp: neq_Nil_conv)

definition str_split :: "string \<Rightarrow> string \<Rightarrow> string list" where
  "str_split sep s = split_from sep [] s"

text \<open>\<^verbatim>\<open>sep.join(xs)\<close>.\<close>

fun str_join :: "string \<Rightarrow> string list \<Rightarrow> string" where
  "str_join sep [] = []"
| "str_join sep [x] = x"
| "str_join sep (x # y # ys) = x @ sep @ str_join sep (y # ys)"

text \<open>
  \<^verbatim>\<open>s.replace(old, new)\<close> where \<open>old\<close> is a single character, which is how the adapter
  calls it (\<^verbatim>\<open>os.sep\<close> is one character).
\<close>

definition str_replace :: "char \<Rightarrow> string \<Rightarrow> string \<Rightarrow> string" where
  "str_replace old new s = concat (map (\<lambda>c. if c = old then new else [c]) s)"

text \<open>\<^verbatim>\<open>s.rfind(c)\<close> for a single character: the highest index holding \<open>c\<close>, or \<open>-1\<close>.\<close>

primrec rfind_from :: "char \<Rightarrow> string \<Rightarrow> int \<Rightarrow> int \<Rightarrow> int" where
  "rfind_from c [] i found = found"
| "rfind_from c (x # xs) i found = rfind_from c xs (i + 1) (if x = c then i else found)"

definition str_rfind :: "string \<Rightarrow> char \<Rightarrow> int" where
  "str_rfind s c = rfind_from c s 0 (- 1)"


text \<open>\<^verbatim>\<open>next(it)\<close> on an iterator that yields the elements of \<open>xs\<close>.\<close>

definition py_next :: "'a list \<Rightarrow> py_error + 'a" where
  "py_next xs = (case xs of [] \<Rightarrow> Inl StopIteration | x # _ \<Rightarrow> Inr x)"


section \<open>The process environment and \<^verbatim>\<open>os.path\<close> on POSIX\<close>

text \<open>
  The adapter reads the working directory, asks the file system whether a path is a
  regular file and reads \<^verbatim>\<open>sys.argv\<close> and \<^verbatim>\<open>sys.path\<close>. These are the fields of
  the environment. \<open>regular_file\<close> is the file system's answer to \<^verbatim>\<open>os.stat\<close> for a
  path string; \<open>getcwd\<close> is what \<^verbatim>\<open>os.getcwd()\<close> returns.
  The path functions follow \<^verbatim>\<open>posixpath\<close> (\<^verbatim>\<open>os.sep\<close> is \<^verbatim>\<open>"/"\<close>).
\<close>

record env =
  getcwd :: string
  regular_file :: "string \<Rightarrow> bool"
  sys_argv :: "string list"
  sys_path :: "string list"

definition os_sep :: char where
  "os_sep = CHR ''/''"

text \<open>
  \<^verbatim>\<open>os.path.isfile\<close>: \<^verbatim>\<open>os.stat\<close> of the empty path fails, which \<^verbatim>\<open>isfile\<close> turns into
  \<^verbatim>\<open>False\<close>.
\<close>

definition isfile :: "env \<Rightarrow> string \<Rightarrow> bool" where
  "isfile e path = (path \<noteq> [] \<and> regular_file e path)"

definition isabs :: "string \<Rightarrow> bool" where
  "isabs s = prefix [os_sep] s"

text \<open>\<^verbatim>\<open>posixpath.join(a, *p)\<close>.\<close>

fun posix_join :: "string \<Rightarrow> string list \<Rightarrow> string" where
  "posix_join path [] = path"
| "posix_join path (b # p) =
     (if prefix [os_sep] b then posix_join b p
      else if path = [] \<or> suffix [os_sep] path then posix_join (path @ b) p
      else posix_join (path @ [os_sep] @ b) p)"

text \<open>The loop of \<^verbatim>\<open>posixpath.normpath\<close> over the components of the path.\<close>

fun normpath_comps :: "nat \<Rightarrow> string list \<Rightarrow> string list \<Rightarrow> string list" where
  "normpath_comps initial_slashes new_comps [] = new_comps"
| "normpath_comps initial_slashes new_comps (c # comps) =
     (if c = [] \<or> c = ''.'' then normpath_comps initial_slashes new_comps comps
      else if c \<noteq> ''..'' \<or> (initial_slashes = 0 \<and> new_comps = [])
              \<or> (new_comps \<noteq> [] \<and> last new_comps = ''..'')
      then normpath_comps initial_slashes (new_comps @ [c]) comps
      else if new_comps \<noteq> [] then normpath_comps initial_slashes (butlast new_comps) comps
      else normpath_comps initial_slashes new_comps comps)"

definition normpath :: "string \<Rightarrow> string" where
  "normpath path =
     (if path = [] then ''.''
      else
        let initial_slashes =
              (if prefix [os_sep] path
               then (if prefix [os_sep, os_sep] path \<and> \<not> prefix [os_sep, os_sep, os_sep] path
                     then 2 else 1)
               else 0);
            comps = normpath_comps initial_slashes [] (str_split [os_sep] path);
            joined = str_join [os_sep] comps;
            path' = (if initial_slashes \<noteq> 0 then replicate initial_slashes os_sep @ joined
                     else joined)
        in if path' = [] then ''.'' else path')"

definition abspath :: "env \<Rightarrow> string \<Rightarrow> string" where
  "abspath e path =
     normpath (if \<not> isabs path then posix_join (getcwd e) [path] else path)"

text \<open>
  \<^verbatim>\<open>posixpath.relpath(path, start)\<close>. It raises \<^verbatim>\<open>ValueError\<close> on an empty path. The
  common prefix of the two component lists is what \<^verbatim>\<open>genericpath.commonprefix\<close>
  computes on two lists.
\<close>

definition relpath :: "env \<Rightarrow> string \<Rightarrow> string \<Rightarrow> py_error + string" where
  "relpath e path start =
     (if path = [] then Inl ValueError
      else
        let start_list = filter (\<lambda>x. x \<noteq> []) (str_split [os_sep] (abspath e start));
            path_list = filter (\<lambda>x. x \<noteq> []) (str_split [os_sep] (abspath e path));
            i = length (longest_common_prefix start_list path_list);
            rel_list = replicate (length start_list - i) ''..'' @ drop i path_list
        in case rel_list of
             [] \<Rightarrow> Inr ''.''
           | a # p \<Rightarrow> Inr (posix_join a p))"

text \<open>
  \<^verbatim>\<open>posixpath.splitext\<close>, that is \<^verbatim>\<open>genericpath._splitext(p, "/", None, ".")\<close>: the
  extension starts at the last dot of the last component, unless only dots precede it
  there.
\<close>

function splitext_loop :: "string \<Rightarrow> int \<Rightarrow> int \<Rightarrow> string \<times> string" where
  "splitext_loop p filenameIndex dotIndex =
     (if filenameIndex < dotIndex
      then (if take 1 (drop (nat filenameIndex) p) \<noteq> ''.''
            then (take (nat dotIndex) p, drop (nat dotIndex) p)
            else splitext_loop p (filenameIndex + 1) dotIndex)
      else (p, []))"
  by pat_completeness auto
termination
  by (relation "measure (\<lambda>(p, filenameIndex, dotIndex). nat (dotIndex - filenameIndex))") auto

declare splitext_loop.simps [simp del]

definition splitext :: "string \<Rightarrow> string \<times> string" where
  "splitext p =
     (let sepIndex = str_rfind p os_sep;
          dotIndex = str_rfind p (CHR ''.'')
      in if dotIndex > sepIndex then splitext_loop p (sepIndex + 1) dotIndex
         else (p, []))"


section \<open>Translating a case identifier into a test label\<close>

text \<open>
  \<^verbatim>\<open>DjangoNeotestAdapter.id_to_unittest_args\<close>. The unpacking
  \<^verbatim>\<open>path, *child_ids = case_id.split("::")\<close> needs at least one piece; Python raises
  \<^verbatim>\<open>ValueError\<close> otherwise.
\<close>

definition id_to_unittest_args :: "env \<Rightarrow> string \<Rightarrow> py_error + string list" where
  "id_to_unittest_args e case_id =
     (case str_split ''::'' case_id of
        [] \<Rightarrow> Inl ValueError
      | path # child_ids \<Rightarrow>
          if child_ids = [] then
            if isfile e path then
              (case relpath e path (getcwd e) of
                 Inl err \<Rightarrow> Inl err
               | Inr relative_file \<Rightarrow>
                   let relative_stem = fst (splitext relative_file);
                       relative_dotted = str_replace os_sep ''.'' relative_stem
                   in Inr [relative_dotted])
            else Inr [case_id]
          else
            (case relpath e path (getcwd e) of
               Inl err \<Rightarrow> Inl err
             | Inr relative_file \<Rightarrow>
                 let relative_stem = fst (splitext relative_file);
                     relative_dotted = str_replace os_sep ''.'' relative_stem
                 in Inr [str_join ''.'' (relative_dotted # child_ids)]))"


section \<open>The result interceptor\<close>

text \<open>
  Modelled from the spec: the enumeration \<^verbatim>\<open>NeotestResultStatus\<close> is imported from
  \<^verbatim>\<open>.base\<close>, which is not among the sources. The spec's Result Record gives its
  values as "one of {PASSED, FAILED}"; the adapter uses exactly these two.
\<close>

datatype NeotestResultStatus = PASSED | FAILED

text \<open>
  The values the callbacks put into their dictionaries. A dictionary literal is an
  association list in the order in which the keys are written.
\<close>

datatype pyval =
    PyNone
  | PyInt int
  | PyStatus NeotestResultStatus
  | PyList "pyval list"
  | PyDict "(string \<times> pyval) list"

type_synonym result_record = "(string \<times> pyval) list"

text \<open>
  What the callbacks read from a test object: the absolute path of the file of its module
  (\<^verbatim>\<open>str(Path(inspect.getmodule(case).__file__).absolute())\<close>, the introspection
  itself being Python's), the name of its class, whether it is an instance of
  Django's \<^verbatim>\<open>TestCase\<close>, and \<^verbatim>\<open>_testMethodName\<close>.
\<close>

record test =
  module_file :: string
  class_name :: string
  is_TestCase :: bool
  testMethodName :: string

text \<open>
  A traceback is the list of its frames, oldest call first, which is the order in which
  \<^verbatim>\<open>traceback.extract_tb\<close> returns them; \<open>err\<close> is the triple of \<^verbatim>\<open>sys.exc_info()\<close>.
\<close>

record frame =
  filename :: string
  lineno :: int

record exc_info =
  exc_type :: string
  exc_value :: string
  exc_tb :: "frame list"

definition extract_tb :: "frame list \<Rightarrow> frame list" where
  "extract_tb trace = trace"

text \<open>
  The state of a \<^verbatim>\<open>NeotestTextTestResult\<close>: the lists \<^verbatim>\<open>failures\<close> and \<^verbatim>\<open>errors\<close>
  that the inherited callbacks of \<^verbatim>\<open>unittest\<close> append to (the formatted traceback
  stored with each test is left out), the dictionary \<^verbatim>\<open>neo_results\<close>, and the calls
  made so far to the \<^verbatim>\<open>stream\<close> callback that \<^verbatim>\<open>run\<close> was given. The diagnostic
  \<^verbatim>\<open>print\<close> calls are not modelled.
\<close>

record result_state =
  failures :: "test list"
  errors :: "test list"
  neo_results :: "string \<rightharpoonup> result_record"
  streamed :: "(string \<times> result_record) list"

definition init_result :: result_state where
  "init_result = \<lparr>failures = [], errors = [], neo_results = Map.empty, streamed = []\<rparr>"

definition case_file :: "test \<Rightarrow> string" where
  "case_file c = module_file c"

definition case_id_elems :: "test \<Rightarrow> string list" where
  "case_id_elems c =
     (let file = case_file c;
          elems = [file, class_name c]
      in if is_TestCase c then elems @ [testMethodName c] else elems)"

definition case_id :: "test \<Rightarrow> string" where
  "case_id c = str_join ''::'' (case_id_elems c)"

text \<open>
  The line lookup shared by \<^verbatim>\<open>addFailure\<close> and \<^verbatim>\<open>addError\<close>:
  \<^verbatim>\<open>next(frame.lineno - 1 for frame in reversed(summary) if frame.filename == case_file)\<close>.
\<close>

definition error_line_of :: "string \<Rightarrow> frame list \<Rightarrow> py_error + int" where
  "error_line_of file summary =
     py_next (map (\<lambda>frame. lineno frame - 1)
                  (filter (\<lambda>frame. filename frame = file) (rev summary)))"

text \<open>
  A callback either returns the new state (\<open>Inr\<close>) or raises (\<open>Inl\<close>), in which case the
  state reached at the raise is kept with the exception: what the inherited callback
  did before is not undone.
\<close>

type_synonym callback_result = "py_error \<times> result_state + result_state"

definition stream_stored :: "string \<Rightarrow> result_state \<Rightarrow> callback_result" where
  "stream_stored cid s =
     (case neo_results s cid of
        None \<Rightarrow> Inl (KeyError, s)
      | Some r \<Rightarrow> Inr (s\<lparr>streamed := streamed s @ [(cid, r)]\<rparr>))"

definition addFailure :: "result_state \<Rightarrow> test \<Rightarrow> exc_info \<Rightarrow> callback_result" where
  "addFailure s t err =
     (let s1 = s\<lparr>failures := failures s @ [t]\<rparr>;
          cid = case_id t;
          file = case_file t;
          trace = exc_tb err;
          summary = extract_tb trace
      in case error_line_of file summary of
           Inl e \<Rightarrow> Inl (e, s1)
         | Inr error_line \<Rightarrow>
             stream_stored cid
               (s1\<lparr>neo_results := (neo_results s1)(cid \<mapsto>
                  [(''status'', PyStatus FAILED),
                   (''errors'', PyList [PyDict [(''message'', PyNone), (''line'', PyInt error_line)]]),
                   (''short'', PyNone)])\<rparr>))"

definition addError :: "result_state \<Rightarrow> test \<Rightarrow> exc_info \<Rightarrow> callback_result" where
  "addError s t err =
     (let s1 = s\<lparr>errors := errors s @ [t]\<rparr>;
          cid = case_id t;
          file = case_file t;
          trace = exc_tb err;
          summary = extract_tb trace
      in case error_line_of file summary of
           Inl e \<Rightarrow> Inl (e, s1)
         | Inr error_line \<Rightarrow>
             stream_stored cid
               (s1\<lparr>neo_results := (neo_results s1)(cid \<mapsto>
                  [(''status'', PyStatus FAILED),
                   (''errors'', PyList [PyDict [(''message'', PyNone), (''line'', PyInt error_line)]]),
                   (''short'', PyNone)])\<rparr>))"

definition addSuccess :: "result_state \<Rightarrow> test \<Rightarrow> callback_result" where
  "addSuccess s t =
     stream_stored (case_id t)
       (s\<lparr>neo_results := (neo_results s)(case_id t \<mapsto> [(''status'', PyStatus PASSED)])\<rparr>)"


section \<open>Running the tests\<close>

text \<open>
  Django's runner is not part of the adapter. What the adapter sees of it is the
  sequence of outcomes it reports, one callback per completed test, for the labels it is
  asked to run and the import path it finds. A framework is therefore a function from
  \<^verbatim>\<open>sys.path\<close> and the test labels to that sequence. Outcomes that the adapter does not
  intercept (skips, expected failures) leave \<^verbatim>\<open>neo_results\<close> alone and are left out.
\<close>

datatype outcome = Success | Failure exc_info | Error exc_info


definition report :: "result_state \<Rightarrow> test \<times> outcome \<Rightarrow> callback_result" where
  "report s ev =
     (case snd ev of
        Success \<Rightarrow> addSuccess s (fst ev)
      | Failure err \<Rightarrow> addFailure s (fst ev) err
      | Error err \<Rightarrow> addError s (fst ev) err)"

text \<open>
  An exception raised by a callback is not caught by the adapter and ends the suite.
  (On its way up \<^verbatim>\<open>unittest\<close> may re-raise it in another exception; the model keeps
  the one the callback raised.)
\<close>

fun run_suite :: "result_state \<Rightarrow> (test \<times> outcome) list \<Rightarrow> callback_result" where
  "run_suite s [] = Inr s"
| "run_suite s (ev # evs) =
     (case report s ev of
        Inl x \<Rightarrow> Inl x
      | Inr s' \<Rightarrow> run_suite s' evs)"






section \<open>The scenario of the specification\<close>

text \<open>
  The project of the specification's scenarios: the working directory is \<^verbatim>\<open>/proj\<close>, the
  file \<^verbatim>\<open>/proj/tests/test_foo.py\<close> exists and declares the Django test case
  \<^verbatim>\<open>FooTest\<close> with the method \<^verbatim>\<open>test_bar\<close>.
\<close>

definition proj_env :: env where
  "proj_env = \<lparr>getcwd = ''/proj'', regular_file = (\<lambda>p. p = ''/proj/tests/test_foo.py''),
     sys_argv = [''neotest.py''], sys_path = []\<rparr>"

definition foo_test :: test where
  "foo_test = \<lparr>module_file = ''/proj/tests/test_foo.py'', class_name = ''FooTest'',
     is_TestCase = True, testMethodName = ''test_bar''\<rparr>"


section \<open>Facts about the string functions\<close>

lemma split_from_no_sep: "\<not> str_in sep s \<Longrightarrow> split_from sep cur s = [cur @ s]"
  by (induction s arbitrary: cur) auto

lemma str_split_no_sep: "\<not> str_in sep s \<Longrightarrow> str_split sep s = [s]"
  by (simp add: str_split_def split_from_no_sep)

lemma split_from_not_Nil: "split_from sep cur s \<noteq> []"
  by (induction sep cur s rule: split_from.induct) auto

lemma split_from_step:
  "\<not> prefix sep (c # cs) \<Longrightarrow> split_from sep cur (c # cs) = split_from sep (cur @ [c]) cs"
  by simp

lemma split_from_hit:
  "sep \<noteq> [] \<Longrightarrow> split_from sep cur (sep @ rest) = cur # split_from sep [] rest"
  by (cases sep) simp_all

lemma relpath_nonempty: "path \<noteq> [] \<Longrightarrow> \<exists>rel. relpath e path start = Inr rel"
  by (auto simp: relpath_def Let_def split: list.splits)




lemma split_from_hd_prefix: "prefix cur (hd (split_from sep cur s))"
proof (induction sep cur s rule: split_from.induct)
  case (1 sep cur)
  show ?case by simp
next
  case (2 sep cur c cs)
  show ?case
  proof (cases "sep \<noteq> [] \<and> prefix sep (c # cs)")
    case True
    then show ?thesis by simp
  next
    case False
    with 2 have "prefix (cur @ [c]) (hd (split_from sep cur (c # cs)))" by auto
    then show ?thesis by (rule append_prefixD)
  qed
qed

text \<open>
  An identifier that does not start with the separator has a non-empty first piece; one
  that does has an empty first piece and at least one more piece.
\<close>

lemma str_split_path_nonempty:
  assumes "\<not> prefix ''::'' ident" and "ident \<noteq> []"
  shows "hd (str_split ''::'' ident) \<noteq> []"
proof -
  from assms(2) obtain c cs where ident: "ident = c # cs" by (cases ident) auto
  with assms(1) have "str_split ''::'' ident = split_from ''::'' [c] cs"
    unfolding str_split_def ident by (subst split_from_step) auto
  moreover have "prefix [c] (hd (split_from ''::'' [c] cs))" by (rule split_from_hd_prefix)
  ultimately show ?thesis by auto
qed

lemma str_split_leading_sep:
  "prefix ''::'' ident \<Longrightarrow> \<exists>child_ids. child_ids \<noteq> [] \<and> str_split ''::'' ident = [] # child_ids"
proof -
  assume "prefix ''::'' ident"
  then obtain rest where "ident = ''::'' @ rest" by (auto simp: prefix_def)
  then have "str_split ''::'' ident = [] # split_from ''::'' [] rest"
    unfolding str_split_def using split_from_hit [of "''::''" "[]" rest] by simp
  then show ?thesis using split_from_not_Nil by blast
qed

text \<open>
  A piece that neither contains the separator nor ends with a colon is cut off exactly
  at the separator that follows it; hence splitting a join gives the joined pieces back.
\<close>

lemma split_from_piece:
  "\<not> str_in ''::'' x \<Longrightarrow> \<not> suffix '':'' x \<Longrightarrow>
     split_from ''::'' cur (x @ ''::'' @ rest) = (cur @ x) # split_from ''::'' [] rest"
proof (induction x arbitrary: cur)
  case Nil
  show ?case using split_from_hit [of "''::''" cur rest] by simp
next
  case (Cons c x)
  from Cons.prems have nin: "\<not> str_in ''::'' x" and np: "\<not> prefix ''::'' (c # x)" by auto
  have ns: "\<not> suffix '':'' x"
    using Cons.prems(2) by (auto simp: suffix_Cons)
  have "\<not> prefix ''::'' (c # (x @ ''::'' @ rest))"
  proof (cases x)
    case Nil
    from Cons.prems(2) have "c \<noteq> CHR '':''" by (auto simp: Nil)
    then show ?thesis by auto
  next
    case (Cons d x')
    with np show ?thesis by auto
  qed
  then have "split_from ''::'' cur (c # (x @ ''::'' @ rest))
      = split_from ''::'' (cur @ [c]) (x @ ''::'' @ rest)" by (rule split_from_step)
  also have "\<dots> = ((cur @ [c]) @ x) # split_from ''::'' [] rest"
    by (rule Cons.IH [OF nin ns])
  finally show ?case by simp
qed

lemma split_from_join:
  "xs \<noteq> [] \<Longrightarrow> \<forall>x\<in>set xs. \<not> str_in ''::'' x \<Longrightarrow> \<forall>x\<in>set (butlast xs). \<not> suffix '':'' x \<Longrightarrow>
     split_from ''::'' cur (str_join ''::'' xs) = (cur @ hd xs) # tl xs"
proof (induction "''::''" xs arbitrary: cur rule: str_join.induct)
  case 1
  then show ?case by simp
next
  case (2 x)
  then show ?case by (simp add: split_from_no_sep)
next
  case (3 x y ys)
  have "split_from ''::'' cur (x @ ''::'' @ str_join ''::'' (y # ys))
      = (cur @ x) # split_from ''::'' [] (str_join ''::'' (y # ys))"
    using "3.prems" by (intro split_from_piece) auto
  moreover have "split_from ''::'' [] (str_join ''::'' (y # ys)) = ([] @ hd (y # ys)) # tl (y # ys)"
    using "3.prems" by (intro "3.hyps") auto
  ultimately show ?case by simp
qed

text \<open>
  Conversely, a piece that contains the separator, or that ends with a colon and is
  followed by the separator, is cut short, so the condition is also necessary.
\<close>

lemma split_from_hd_hit:
  "sep \<noteq> [] \<Longrightarrow> prefix sep s \<Longrightarrow> hd (split_from sep cur s) = cur"
  by (cases s) auto

lemma split_from_hd_short:
  "str_in sep x \<Longrightarrow> sep \<noteq> [] \<Longrightarrow>
     length (hd (split_from sep cur (x @ rest))) < length cur + length x"
proof (induction x arbitrary: cur)
  case Nil
  then show ?case by simp
next
  case (Cons c x)
  show ?case
  proof (cases "prefix sep (c # (x @ rest))")
    case True
    with Cons.prems(2) show ?thesis by simp
  next
    case False
    then have "\<not> prefix sep (c # x)"
      using prefix_prefix [of sep "c # x" rest] by auto
    with Cons.prems(1) have "str_in sep x" by simp
    from Cons.IH [OF this Cons.prems(2), of "cur @ [c]"] False show ?thesis by simp
  qed
qed

lemma split_from_hd_colon:
  "suffix '':'' x \<Longrightarrow>
     length (hd (split_from ''::'' cur (x @ ''::'' @ rest))) < length cur + length x"
proof (induction x arbitrary: cur)
  case Nil
  then show ?case by simp
next
  case (Cons c x)
  show ?case
  proof (cases "prefix ''::'' (c # (x @ ''::'' @ rest))")
    case True
    have "hd (split_from ''::'' cur (c # (x @ ''::'' @ rest))) = cur"
      by (rule split_from_hd_hit [OF _ True]) simp
    then show ?thesis by simp
  next
    case False
    have "x \<noteq> []"
    proof
      assume "x = []"
      with Cons.prems have "c = CHR '':''" by (simp add: suffix_def)
      with \<open>x = []\<close> False show False by simp
    qed
    with Cons.prems have "suffix '':'' x" by (auto simp: suffix_Cons)
    from Cons.IH [OF this, of "cur @ [c]"] False show ?thesis
      using split_from_step [OF False, of cur] by simp
  qed
qed

lemma split_from_join_only_if:
  "xs \<noteq> [] \<Longrightarrow> split_from ''::'' [] (str_join ''::'' xs) = xs \<Longrightarrow>
     (\<forall>x\<in>set xs. \<not> str_in ''::'' x) \<and> (\<forall>x\<in>set (butlast xs). \<not> suffix '':'' x)"
proof (induction "''::''" xs rule: str_join.induct)
  case 1
  then show ?case by simp
next
  case (2 x)
  have "\<not> str_in ''::'' x"
  proof
    assume "str_in ''::'' x"
    from split_from_hd_short [OF this, of "[]" "[]"] "2.prems"(2) show False by simp
  qed
  then show ?case by simp
next
  case (3 x y ys)
  from "3.prems"(2) have eq: "split_from ''::'' [] (x @ ''::'' @ str_join ''::'' (y # ys)) = x # y # ys"
    by simp
  have a: "\<not> str_in ''::'' x"
  proof
    assume "str_in ''::'' x"
    from split_from_hd_short [OF this, of "[]" "''::'' @ str_join ''::'' (y # ys)"] eq
    show False by simp
  qed
  have b: "\<not> suffix '':'' x"
  proof
    assume "suffix '':'' x"
    from split_from_hd_colon [OF this, of "[]" "str_join ''::'' (y # ys)"] eq
    show False by simp
  qed
  from split_from_piece [OF a b, of "[]" "str_join ''::'' (y # ys)"] eq
  have "split_from ''::'' [] (str_join ''::'' (y # ys)) = y # ys" by simp
  with "3.hyps" have "(\<forall>x\<in>set (y # ys). \<not> str_in ''::'' x) \<and> (\<forall>x\<in>set (butlast (y # ys)). \<not> suffix '':'' x)"
    by simp
  with a b show ?case by simp
qed



lemma scenario_case_id: "case_id foo_test = ''/proj/tests/test_foo.py::FooTest::test_bar''"
  by (simp add: case_id_def case_id_elems_def case_file_def foo_test_def)



section \<open>Facts about the translation and the line lookup\<close>

lemma id_to_unittest_args_leading_sep:
  assumes "prefix ''::'' ident"
  shows "id_to_unittest_args e ident = Inl ValueError"
proof -
  from assms obtain child_ids where "child_ids \<noteq> []" "str_split ''::'' ident = [] # child_ids"
    using str_split_leading_sep by blast
  then show ?thesis by (simp add: id_to_unittest_args_def relpath_def)
qed

lemma id_to_unittest_args_label:
  assumes "\<not> prefix ''::'' ident"
  shows "\<exists>label. id_to_unittest_args e ident = Inr [label]"
proof -
  obtain path child_ids where sp: "str_split ''::'' ident = path # child_ids"
    using split_from_not_Nil [of "''::''" "[]" ident]
    by (cases "str_split ''::'' ident") (auto simp: str_split_def)
  show ?thesis
  proof (cases "child_ids = []")
    case True
    show ?thesis
    proof (cases "isfile e path")
      case f: True
      then have "path \<noteq> []" by (simp add: isfile_def)
      then obtain rel where "relpath e path (getcwd e) = Inr rel"
        using relpath_nonempty by blast
      with sp True f show ?thesis by (simp add: id_to_unittest_args_def)
    next
      case f: False
      with sp True show ?thesis by (simp add: id_to_unittest_args_def)
    qed
  next
    case ch: False
    have "ident \<noteq> []"
    proof
      assume "ident = []"
      with sp ch show False by (simp add: str_split_def)
    qed
    with assms have "hd (str_split ''::'' ident) \<noteq> []" by (rule str_split_path_nonempty)
    with sp have "path \<noteq> []" by simp
    then obtain rel where "relpath e path (getcwd e) = Inr rel"
      using relpath_nonempty by blast
    with sp ch show ?thesis by (simp add: id_to_unittest_args_def)
  qed
qed



lemma error_line_of_none:
  "\<forall>g\<in>set summary. filename g \<noteq> file \<Longrightarrow> error_line_of file summary = Inl StopIteration"
  by (simp add: error_line_of_def py_next_def filter_empty_conv[THEN iffD2])


section \<open>Identifier translation\<close>



text \<open>
  C5. An identifier without \<^verbatim>\<open>::\<close> that does not name an existing file (a directory)
  is returned unchanged, as the only element of the list.
\<close>

theorem directory_id_unchanged:
  "\<not> str_in ''::'' ident \<Longrightarrow> \<not> isfile e ident \<Longrightarrow>
     id_to_unittest_args e ident = Inr [ident]"
  by (simp add: id_to_unittest_args_def str_split_no_sep)

theorem directory_id_unchanged_witness:
  "\<not> str_in ''::'' ''/proj/tests'' \<and> \<not> isfile proj_env ''/proj/tests''
   \<and> id_to_unittest_args proj_env ''/proj/tests'' = Inr [''/proj/tests'']"
proof -
  have a: "\<not> str_in ''::'' ''/proj/tests''" by simp
  have b: "\<not> isfile proj_env ''/proj/tests''" by (simp add: isfile_def proj_env_def)
  from directory_id_unchanged [OF a b] a b show ?thesis by simp
qed




text \<open>
  C10, as amended. On every input string the translation either returns a list of
  exactly one element or raises \<^verbatim>\<open>ValueError\<close>; it raises exactly on the strings that
  start with \<^verbatim>\<open>::\<close>, that is, child segments behind an empty path. No input gives an
  empty list or a list of several elements.
\<close>

theorem id_to_unittest_args_total:
  "id_to_unittest_args e ident = Inl ValueError \<and> prefix ''::'' ident
   \<or> (\<exists>label. id_to_unittest_args e ident = Inr [label]) \<and> \<not> prefix ''::'' ident"
  using id_to_unittest_args_leading_sep [of ident e] id_to_unittest_args_label [of ident e]
  by (cases "prefix ''::'' ident") simp_all

theorem id_to_unittest_args_total_witness:
  "id_to_unittest_args proj_env ''/proj/tests'' = Inr [''/proj/tests'']
   \<and> id_to_unittest_args proj_env ''::FooTest'' = Inl ValueError"
proof -
  have a: "prefix ''::'' ''::FooTest''" by simp
  have b: "id_to_unittest_args proj_env ''/proj/tests'' = Inr [''/proj/tests'']"
    by code_simp
  from id_to_unittest_args_total [of proj_env "''::FooTest''"] a b show ?thesis by simp
qed

text \<open>
  C10 as stated fails on the input \<^verbatim>\<open>::\<close>: it splits into an empty path and one empty
  child segment, and the translation raises instead of returning a list.
\<close>

theorem single_label_counterexample:
  "str_split ''::'' ''::'' = [[], []] \<and> id_to_unittest_args proj_env ''::'' = Inl ValueError"
  by code_simp


section \<open>Result records\<close>



text \<open>
  C2. When no frame of the traceback lies in the test's own file, the line lookup of
  \<^verbatim>\<open>addFailure\<close> and of \<^verbatim>\<open>addError\<close> raises \<^verbatim>\<open>StopIteration\<close>. Only the inherited
  callback has run by then: no record is stored, nothing is streamed, and the suite ends
  with the exception whatever tests were still to be reported.
\<close>

theorem no_matching_frame_raises:
  "\<forall>g\<in>set (exc_tb err). filename g \<noteq> case_file t \<Longrightarrow>
     addFailure s t err = Inl (StopIteration, s\<lparr>failures := failures s @ [t]\<rparr>)
   \<and> addError s t err = Inl (StopIteration, s\<lparr>errors := errors s @ [t]\<rparr>)
   \<and> run_suite s ((t, Failure err) # rest) = Inl (StopIteration, s\<lparr>failures := failures s @ [t]\<rparr>)
   \<and> run_suite s ((t, Error err) # rest) = Inl (StopIteration, s\<lparr>errors := errors s @ [t]\<rparr>)"
  by (simp add: addFailure_def addError_def Let_def extract_tb_def error_line_of_none report_def)

theorem no_matching_frame_raises_witness:
  "addFailure init_result foo_test
     \<lparr>exc_type = ''ImproperlyConfigured'', exc_value = ''settings'',
      exc_tb = [\<lparr>filename = ''/usr/lib/python3/django/conf.py'', lineno = 72\<rparr>]\<rparr>
     = Inl (StopIteration, init_result\<lparr>failures := [foo_test]\<rparr>)
   \<and> addError init_result foo_test
     \<lparr>exc_type = ''ImproperlyConfigured'', exc_value = ''settings'',
      exc_tb = [\<lparr>filename = ''/usr/lib/python3/django/conf.py'', lineno = 72\<rparr>]\<rparr>
     = Inl (StopIteration, init_result\<lparr>errors := [foo_test]\<rparr>)"
proof -
  have "\<forall>g\<in>set (exc_tb \<lparr>exc_type = ''ImproperlyConfigured'', exc_value = ''settings'',
      exc_tb = [\<lparr>filename = ''/usr/lib/python3/django/conf.py'', lineno = 72\<rparr>]\<rparr>).
        filename g \<noteq> case_file foo_test"
    by (simp add: case_file_def foo_test_def)
  from no_matching_frame_raises [OF this, of init_result] show ?thesis
    by (simp add: init_result_def)
qed

text \<open>
  C6, as amended. Every record that a callback stores is also the one it streams, under
  the test's key. For a failed or errored test it has the three keys \<^verbatim>\<open>status\<close>,
  \<^verbatim>\<open>errors\<close> and \<^verbatim>\<open>short\<close>: status \<^verbatim>\<open>FAILED\<close>, one error with a null message and an
  integer line, a null short text. For a passed test it has the key \<^verbatim>\<open>status\<close> only,
  with the value \<^verbatim>\<open>PASSED\<close>.
\<close>

theorem emitted_record_shape:
  "report s (t, oc) = Inr s' \<Longrightarrow>
     \<exists>r. neo_results s' (case_id t) = Some r
       \<and> streamed s' = streamed s @ [(case_id t, r)]
       \<and> (if oc = Success then r = [(''status'', PyStatus PASSED)]
          else \<exists>line. r = [(''status'', PyStatus FAILED),
                 (''errors'', PyList [PyDict [(''message'', PyNone), (''line'', PyInt line)]]),
                 (''short'', PyNone)])"
  by (cases oc)
     (auto simp: report_def addSuccess_def addFailure_def addError_def stream_stored_def Let_def
           split: sum.splits)

theorem emitted_record_shape_witness:
  "report init_result
     (foo_test, Error \<lparr>exc_type = ''KeyError'', exc_value = ''pk'',
        exc_tb = [\<lparr>filename = ''/proj/tests/test_foo.py'', lineno = 17\<rparr>]\<rparr>)
     = Inr \<lparr>failures = [], errors = [foo_test],
          neo_results = [''/proj/tests/test_foo.py::FooTest::test_bar'' \<mapsto>
             [(''status'', PyStatus FAILED),
              (''errors'', PyList [PyDict [(''message'', PyNone), (''line'', PyInt 16)]]),
              (''short'', PyNone)]],
          streamed = [(''/proj/tests/test_foo.py::FooTest::test_bar'',
             [(''status'', PyStatus FAILED),
              (''errors'', PyList [PyDict [(''message'', PyNone), (''line'', PyInt 16)]]),
              (''short'', PyNone)])]\<rparr>"
proof -
  have r: "report init_result
     (foo_test, Error \<lparr>exc_type = ''KeyError'', exc_value = ''pk'',
        exc_tb = [\<lparr>filename = ''/proj/tests/test_foo.py'', lineno = 17\<rparr>]\<rparr>)
     = Inr \<lparr>failures = [], errors = [foo_test],
          neo_results = [''/proj/tests/test_foo.py::FooTest::test_bar'' \<mapsto>
             [(''status'', PyStatus FAILED),
              (''errors'', PyList [PyDict [(''message'', PyNone), (''line'', PyInt 16)]]),
              (''short'', PyNone)]],
          streamed = [(''/proj/tests/test_foo.py::FooTest::test_bar'',
             [(''status'', PyStatus FAILED),
              (''errors'', PyList [PyDict [(''message'', PyNone), (''line'', PyInt 16)]]),
              (''short'', PyNone)])]\<rparr>"
    by (simp add: report_def addError_def Let_def extract_tb_def error_line_of_def py_next_def
          stream_stored_def scenario_case_id init_result_def)
       (simp add: case_file_def foo_test_def)
  from emitted_record_shape [OF r] r show ?thesis by simp
qed

text \<open>
  C6 as stated fails for a passing test: the record that \<^verbatim>\<open>addSuccess\<close> stores and
  streams has the key \<^verbatim>\<open>status\<close> and neither \<^verbatim>\<open>errors\<close> nor \<^verbatim>\<open>short\<close>.
\<close>

theorem passed_record_counterexample:
  "report init_result (foo_test, Success) =
     Inr \<lparr>failures = [], errors = [],
          neo_results = [''/proj/tests/test_foo.py::FooTest::test_bar'' \<mapsto>
             [(''status'', PyStatus PASSED)]],
          streamed = [(''/proj/tests/test_foo.py::FooTest::test_bar'',
             [(''status'', PyStatus PASSED)])]\<rparr>
   \<and> map fst [(''status'', PyStatus PASSED)] = [''status'']"
  by (simp add: report_def addSuccess_def stream_stored_def init_result_def scenario_case_id)

text \<open>
  C7. For a passing test \<^verbatim>\<open>addSuccess\<close> calls the streaming callback once, with the
  test's key and a record whose status is \<^verbatim>\<open>PASSED\<close> and that has no key \<^verbatim>\<open>errors\<close>.
\<close>

theorem addSuccess_streams_once:
  "addSuccess s t =
     Inr (s\<lparr>neo_results := (neo_results s)(case_id t \<mapsto> [(''status'', PyStatus PASSED)]),
            streamed := streamed s @ [(case_id t, [(''status'', PyStatus PASSED)])]\<rparr>)
   \<and> map_of [(''status'', PyStatus PASSED)] ''status'' = Some (PyStatus PASSED)
   \<and> map_of [(''status'', PyStatus PASSED)] ''errors'' = None"
  by (simp add: addSuccess_def stream_stored_def)

theorem addSuccess_streams_once_witness:
  "streamed (projr (addSuccess init_result foo_test))
     = [(''/proj/tests/test_foo.py::FooTest::test_bar'', [(''status'', PyStatus PASSED)])]"
  using addSuccess_streams_once [of init_result foo_test]
  by (simp add: scenario_case_id init_result_def)

text \<open>
  C8, as amended. Splitting a key on \<^verbatim>\<open>::\<close> gives back the elements it was joined
  from (the file path, the class name and, for a \<^verbatim>\<open>TestCase\<close>, the method name, in
  that order) if and only if no element contains \<^verbatim>\<open>::\<close> and no element but the last
  ends with a colon.
\<close>

theorem key_round_trip:
  "str_split ''::'' (case_id t) = case_id_elems t \<longleftrightarrow>
     (\<forall>x\<in>set (case_id_elems t). \<not> str_in ''::'' x)
     \<and> (\<forall>x\<in>set (butlast (case_id_elems t)). \<not> suffix '':'' x)"
proof -
  have ne: "case_id_elems t \<noteq> []" by (simp add: case_id_elems_def Let_def)
  have key: "str_split ''::'' (case_id t) = split_from ''::'' [] (str_join ''::'' (case_id_elems t))"
    by (simp add: str_split_def case_id_def)
  show ?thesis
  proof
    assume "str_split ''::'' (case_id t) = case_id_elems t"
    with key have "split_from ''::'' [] (str_join ''::'' (case_id_elems t)) = case_id_elems t"
      by simp
    with ne show "(\<forall>x\<in>set (case_id_elems t). \<not> str_in ''::'' x)
        \<and> (\<forall>x\<in>set (butlast (case_id_elems t)). \<not> suffix '':'' x)"
      by (rule split_from_join_only_if)
  next
    assume "(\<forall>x\<in>set (case_id_elems t). \<not> str_in ''::'' x)
        \<and> (\<forall>x\<in>set (butlast (case_id_elems t)). \<not> suffix '':'' x)"
    then have a: "\<forall>x\<in>set (case_id_elems t). \<not> str_in ''::'' x"
      and b: "\<forall>x\<in>set (butlast (case_id_elems t)). \<not> suffix '':'' x" by simp_all
    from split_from_join [OF ne a b, of "[]"] ne key
    show "str_split ''::'' (case_id t) = case_id_elems t" by simp
  qed
qed

theorem key_round_trip_witness:
  "str_split ''::'' (case_id foo_test) = [''/proj/tests/test_foo.py'', ''FooTest'', ''test_bar'']"
proof -
  have el: "case_id_elems foo_test = [''/proj/tests/test_foo.py'', ''FooTest'', ''test_bar'']"
    by (simp add: case_id_elems_def case_file_def foo_test_def)
  have "(\<forall>x\<in>set (case_id_elems foo_test). \<not> str_in ''::'' x)
     \<and> (\<forall>x\<in>set (butlast (case_id_elems foo_test)). \<not> suffix '':'' x)"
    unfolding el by (simp add: suffix_def)
  from key_round_trip [THEN iffD2, OF this] el show ?thesis by simp
qed

text \<open>
  C8 as stated fails for a test whose module lies under a directory with \<^verbatim>\<open>::\<close> in its
  name: three elements were recorded, the split of the key has four.
\<close>

theorem key_round_trip_counterexample:
  "case_id_elems \<lparr>module_file = ''/proj/a::b/tests/test_foo.py'', class_name = ''FooTest'',
       is_TestCase = True, testMethodName = ''test_bar''\<rparr>
     = [''/proj/a::b/tests/test_foo.py'', ''FooTest'', ''test_bar'']
   \<and> str_split ''::'' (case_id \<lparr>module_file = ''/proj/a::b/tests/test_foo.py'',
       class_name = ''FooTest'', is_TestCase = True, testMethodName = ''test_bar''\<rparr>)
     = [''/proj/a'', ''b/tests/test_foo.py'', ''FooTest'', ''test_bar'']"
  by code_simp


section \<open>The run\<close>




end
